theory Spec2Isabelle
  imports Main "HOL-Library.Sublist" "HOL-Library.AList" "HOL-Library.Multiset"
begin

section \<open>Strings\<close>

text \<open>
  JavaScript strings are modelled as \<open>string\<close>, one \<open>char\<close> per code unit. The
  model covers code units below 256; case conversion is modelled for the ASCII letters
  and leaves every other character as it is. The byte-order mark U+FEFF that
  \<open>parseCsvSmart\<close> strips from the front of its input lies outside this range, so the
  texts of the model are the texts after that replacement.
\<close>

definition upperLetters :: string where
  "upperLetters = ''ABCDEFGHIJKLMNOPQRSTUVWXYZ''"

definition lowerLetters :: string where
  "lowerLetters = ''abcdefghijklmnopqrstuvwxyz''"

definition digits :: string where
  "digits = ''0123456789''"

definition lowerChar :: "char \<Rightarrow> char" where
  "lowerChar c = (case map_of (zip upperLetters lowerLetters) c of Some d \<Rightarrow> d | None \<Rightarrow> c)"

definition upperChar :: "char \<Rightarrow> char" where
  "upperChar c = (case map_of (zip lowerLetters upperLetters) c of Some d \<Rightarrow> d | None \<Rightarrow> c)"

definition toLowerCase :: "string \<Rightarrow> string" where
  "toLowerCase s = map lowerChar s"

definition toUpperCase :: "string \<Rightarrow> string" where
  "toUpperCase s = map upperChar s"

text \<open>The white space of \<open>trim\<close> and of the regular expression class \<open>\s\<close>: tab, line
  feed, vertical tab, form feed, carriage return, space and no-break space.\<close>

definition isSpace :: "char \<Rightarrow> bool" where
  "isSpace c = (c \<in> set [CHR 0x09, CHR 0x0A, CHR 0x0B, CHR 0x0C, CHR 0x0D, CHR 0x20, CHR 0xA0])"

definition trim :: "string \<Rightarrow> string" where
  "trim s = rev (dropWhile isSpace (rev (dropWhile isSpace s)))"

text \<open>\<open>normalize = s => (s ?? '').toString().trim()\<close>; \<open>None\<close> is \<open>undefined\<close>.\<close>

definition normalize :: "string option \<Rightarrow> string" where
  "normalize s = trim (case s of None \<Rightarrow> [] | Some v \<Rightarrow> v)"

text \<open>\<open>s.split(sep)\<close> for a non-empty separator string: the pieces between the
  occurrences of \<open>sep\<close>, found from left to right without overlap.\<close>

fun splitFrom :: "string \<Rightarrow> string \<Rightarrow> string \<Rightarrow> string list" where
  "splitFrom sep cur [] = [cur]"
| "splitFrom sep cur (c # cs) =
     (if sep \<noteq> [] \<and> prefix sep (c # cs)
      then cur # splitFrom sep [] (drop (length sep) (c # cs))
      else splitFrom sep (cur @ [c]) cs)"

definition split :: "string \<Rightarrow> string \<Rightarrow> string list" where
  "split sep s = splitFrom sep [] s"

text \<open>\<open>s.includes(sep)\<close>.\<close>

fun includesStr :: "string \<Rightarrow> string \<Rightarrow> bool" where
  "includesStr sep [] = (sep = [])"
| "includesStr sep (c # cs) = (prefix sep (c # cs) \<or> includesStr sep cs)"

text \<open>\<open>s.split(/;|,|\|/)\<close> and the like: a split at every single character of a class.\<close>

fun splitWhen :: "(char \<Rightarrow> bool) \<Rightarrow> string \<Rightarrow> string \<Rightarrow> string list" where
  "splitWhen p cur [] = [cur]"
| "splitWhen p cur (c # cs) =
     (if p c then cur # splitWhen p [] cs else splitWhen p (cur @ [c]) cs)"

text \<open>\<open>text.split(/\r?\n/)\<close>: a line ends at a line feed, with the carriage return
  before it when there is one.\<close>

fun splitLines :: "string \<Rightarrow> string \<Rightarrow> string list" where
  "splitLines cur [] = [cur]"
| "splitLines cur [c] = (if c = CHR 0x0A then [cur, []] else [cur @ [c]])"
| "splitLines cur (c # d # cs) =
     (if c = CHR 0x0A then cur # splitLines [] (d # cs)
      else if c = CHR 0x0D \<and> d = CHR 0x0A then cur # splitLines [] cs
      else splitLines (cur @ [c]) (d # cs))"

text \<open>\<open>xs.join(sep)\<close>.\<close>

fun join :: "string \<Rightarrow> string list \<Rightarrow> string" where
  "join sep [] = []"
| "join sep [x] = x"
| "join sep (x # y # ys) = x @ sep @ join sep (y # ys)"

text \<open>\<open>xs[i]\<close>, with \<open>None\<close> for \<open>undefined\<close>: an index out of range, or an index that
  is itself \<open>undefined\<close>.\<close>

definition at :: "'a list \<Rightarrow> nat option \<Rightarrow> 'a option" where
  "at xs i = (case i of None \<Rightarrow> None
              | Some k \<Rightarrow> if k < length xs then Some (xs ! k) else None)"

text \<open>\<open>xs.findIndex(p)\<close>, with \<open>None\<close> for \<open>-1\<close>.\<close>

fun findIndex :: "('a \<Rightarrow> bool) \<Rightarrow> 'a list \<Rightarrow> nat option" where
  "findIndex p [] = None"
| "findIndex p (x # xs) =
     (if p x then Some 0 else map_option Suc (findIndex p xs))"

text \<open>\<open>parseInt(ch, 10)\<close> on a string of decimal digits. The source's numbers are
  doubles, exact up to \<open>2^53\<close>; the only caller keeps the results below the number of
  options, at most 25.\<close>

definition digitVal :: "char \<Rightarrow> int" where
  "digitVal c = int (of_char c) - 48"

definition parseInt :: "string \<Rightarrow> int" where
  "parseInt ch = foldl (\<lambda>acc c. 10 * acc + digitVal c) 0 ch"

section \<open>Questions and the validator\<close>

record question =
  q :: string
  qtype :: string
  options :: "string list"
  answerIdx :: "int list"
  rationale :: string

text \<open>The issue strings of \<open>validateQuestion\<close>, in the order of its checks:
  "missing prompt", "needs \<open>\<ge>\<close>2 options", "\<open>\<le>\<close>25 options supported",
  "missing answer(s)", "answer index out of range".\<close>

datatype issue =
  MissingPrompt | NeedsTwoOptions | TooManyOptions | MissingAnswers | AnswerIndexOutOfRange

definition validateQuestion :: "question \<Rightarrow> issue list" where
  "validateQuestion qn =
     (if q qn = [] then [MissingPrompt] else []) @
     (if length (options qn) < 2 then [NeedsTwoOptions] else []) @
     (if length (options qn) > 25 then [TooManyOptions] else []) @
     (if length (answerIdx qn) = 0 then [MissingAnswers] else []) @
     (if list_ex (\<lambda>i. i < 0 \<or> i \<ge> int (length (options qn))) (answerIdx qn)
      then [AnswerIndexOutOfRange] else [])"

section \<open>The CSV parser\<close>

text \<open>\<open>parseCsvRow\<close>: the loop over the characters of a line, with the cells finished so
  far, the current cell and the quoted-mode flag.\<close>

fun csvScan :: "string list \<Rightarrow> string \<Rightarrow> bool \<Rightarrow> string \<Rightarrow> string list" where
  "csvScan out cur inQ [] = out @ [cur]"
| "csvScan out cur inQ [ch] =
     (if ch = CHR 0x22 then csvScan out cur (\<not> inQ) []
      else if ch = CHR '','' \<and> \<not> inQ then csvScan (out @ [cur]) [] inQ []
      else csvScan out (cur @ [ch]) inQ [])"
| "csvScan out cur inQ (ch # nx # rest) =
     (if ch = CHR 0x22 then
        (if inQ \<and> nx = CHR 0x22 then csvScan out (cur @ [CHR 0x22]) inQ rest
         else csvScan out cur (\<not> inQ) (nx # rest))
      else if ch = CHR '','' \<and> \<not> inQ then csvScan (out @ [cur]) [] inQ (nx # rest)
      else csvScan out (cur @ [ch]) inQ (nx # rest))"

definition parseCsvRow :: "string \<Rightarrow> string list" where
  "parseCsvRow line = csvScan [] [] False line"

text \<open>\<open>lettersToIdxArray\<close>: a token is a single letter \<open>A\<close>..\<open>Z\<close>, a string of digits, or
  neither (\<open>NaN\<close>, here \<open>None\<close>).\<close>

definition tokenToIdx :: "string \<Rightarrow> int option" where
  "tokenToIdx ch =
     (if length ch = 1 \<and> hd ch \<in> set upperLetters then Some (int (of_char (hd ch)) - 65)
      else if ch \<noteq> [] \<and> list_all (\<lambda>c. c \<in> set digits) ch then Some (parseInt ch - 1)
      else None)"

definition lettersToIdxArray :: "string \<Rightarrow> int list" where
  "lettersToIdxArray ans =
     List.map_filter (\<lambda>n. case n of None \<Rightarrow> None | Some k \<Rightarrow> if k \<ge> 0 then Some k else None)
       (map tokenToIdx
         (filter (\<lambda>s. s \<noteq> [])
           (map trim
             (split '';'' (map (\<lambda>c. if c = CHR '','' then CHR '';'' else c) (toUpperCase ans))))))"

text \<open>The column map that \<open>parseCsvSmart\<close> builds from the header row. A field is
  \<open>None\<close> while the property is \<open>undefined\<close>; \<open>optCols\<close> maps a single-letter header to
  its column.\<close>

record colmap =
  m_question :: "nat option"
  m_type :: "nat option"
  m_options :: "nat option"
  m_answer :: "nat option"
  m_explanation :: "nat option"
  m_optCols :: "(string \<times> nat) list option"

definition emptyMap :: colmap where
  "emptyMap = \<lparr>m_question = None, m_type = None, m_options = None, m_answer = None,
               m_explanation = None, m_optCols = None\<rparr>"

text \<open>\<open>/^[a-z]$/.test(h)\<close>.\<close>

definition isLetterHeader :: "string \<Rightarrow> bool" where
  "isLetterHeader h = (length h = 1 \<and> hd h \<in> set lowerLetters)"

text \<open>The header names of each role.\<close>

definition questionNames :: "string list" where
  "questionNames = [''question'', ''prompt'', ''stem'']"

definition typeNames :: "string list" where
  "typeNames = [''type'', ''qtype'']"

definition optionsNames :: "string list" where
  "optionsNames = [''options'', ''choices'', ''opts'']"

definition answerNames :: "string list" where
  "answerNames = [''answer'', ''answers'', ''key'', ''correct'']"

definition explanationNames :: "string list" where
  "explanationNames = [''explanation'', ''rationale'', ''why'']"

text \<open>The body of \<open>headers.forEach((h,i) => ...)\<close>.\<close>

definition headerStep :: "colmap \<Rightarrow> string \<times> nat \<Rightarrow> colmap" where
  "headerStep m hi =
     (let h = fst hi; i = snd hi;
          m1 = (if h \<in> set questionNames then m\<lparr>m_question := Some i\<rparr> else m);
          m2 = (if h \<in> set typeNames then m1\<lparr>m_type := Some i\<rparr> else m1);
          m3 = (if h \<in> set optionsNames then m2\<lparr>m_options := Some i\<rparr> else m2);
          m4 = (if h \<in> set answerNames then m3\<lparr>m_answer := Some i\<rparr> else m3);
          m5 = (if h \<in> set explanationNames then m4\<lparr>m_explanation := Some i\<rparr> else m4);
          m6 = (if m_optCols m5 = None then m5\<lparr>m_optCols := Some []\<rparr> else m5)
      in if isLetterHeader h
         then m6\<lparr>m_optCols := map_option (AList.update h i) (m_optCols m6)\<rparr>
         else m6)"

definition buildMap :: "string list \<Rightarrow> colmap" where
  "buildMap headers = foldl headerStep emptyMap (zip headers [0..<length headers])"

definition hasAnyOptions :: "colmap \<Rightarrow> bool" where
  "hasAnyOptions m =
     (m_options m \<noteq> None \<or> (case m_optCols m of None \<Rightarrow> False | Some oc \<Rightarrow> length oc > 0))"

definition letterOrder :: "string list" where
  "letterOrder = map (\<lambda>c. [c]) lowerLetters"

definition optLetterCols :: "colmap \<Rightarrow> string list" where
  "optLetterCols m =
     take 25 (filter (\<lambda>l. case m_optCols m of None \<Rightarrow> False | Some oc \<Rightarrow> map_of oc l \<noteq> None)
                letterOrder)"

text \<open>The error of \<open>parseCsvSmart\<close>: its message ends with the detected headers.\<close>

definition headerError :: "string list \<Rightarrow> string" where
  "headerError headers =
     ''Headers must include at least: question, options (or a|b|c...), answer. Detected: ''
       @ join '' | '' headers"

text \<open>The options of a row: the packed options cell when the header row has one, the
  letter columns otherwise.\<close>

definition splitPacked :: "string \<Rightarrow> string list" where
  "splitPacked optionsStr =
     (if includesStr ''|'' optionsStr then split ''|'' optionsStr
      else if includesStr '' ; '' optionsStr then split '' ; '' optionsStr
      else if includesStr '';'' optionsStr then split '';'' optionsStr
      else [optionsStr])"

text \<open>\<open>s.replace(/^[A-Z]\.\s*/i, '')\<close>.\<close>

definition stripLetterPrefix :: "string \<Rightarrow> string" where
  "stripLetterPrefix s =
     (case s of
        c # d # rest \<Rightarrow>
          if (c \<in> set upperLetters \<or> c \<in> set lowerLetters) \<and> d = CHR ''.''
          then dropWhile isSpace rest else s
      | _ \<Rightarrow> s)"

definition rowOptions :: "colmap \<Rightarrow> string list \<Rightarrow> string \<Rightarrow> string list \<Rightarrow> string list" where
  "rowOptions m letterCols t cells =
     (let options0 =
            (if m_options m \<noteq> None then splitPacked (normalize (at cells (m_options m)))
             else List.map_filter
                    (\<lambda>l. case at cells (case m_optCols m of None \<Rightarrow> None | Some oc \<Rightarrow> map_of oc l) of
                            None \<Rightarrow> None
                          | Some c \<Rightarrow> if c = [] then None else Some c)
                    letterCols);
          options1 = filter (\<lambda>s. s \<noteq> []) (map (\<lambda>s. trim (stripLetterPrefix s)) options0);
          options2 = (if (t = ''tf'' \<or> t = ''truefalse'') \<and> length options1 = 0
                      then [''True'', ''False''] else options1)
      in if length options2 > 25 then take 25 options2 else options2)"

text \<open>The answer indices of a row: letters and numbers first, option texts when that
  gives nothing and the cell is not empty.\<close>

definition answerTexts :: "string \<Rightarrow> string list" where
  "answerTexts ansRaw =
     filter (\<lambda>s. s \<noteq> [])
       (map (\<lambda>s. toLowerCase (trim s))
         (splitWhen (\<lambda>c. c = CHR '';'' \<or> c = CHR '','' \<or> c = CHR ''|'') [] ansRaw))"

definition deriveAnswerIdx :: "string \<Rightarrow> string list \<Rightarrow> int list" where
  "deriveAnswerIdx ansRaw opts =
     (let answerIdx0 = filter (\<lambda>i. i < int (length opts)) (lettersToIdxArray ansRaw)
      in if length answerIdx0 = 0 \<and> ansRaw \<noteq> []
         then answerIdx0 @
              List.map_filter
                (\<lambda>txt. map_option int (findIndex (\<lambda>o'. toLowerCase o' = txt) opts))
                (answerTexts ansRaw)
         else answerIdx0)"

definition parseRow :: "colmap \<Rightarrow> string list \<Rightarrow> string \<Rightarrow> question" where
  "parseRow m letterCols raw =
     (let cells = map trim (parseCsvRow raw);
          qv = normalize (at cells (m_question m));
          t = toLowerCase
                (normalize (case at cells (m_type m) of
                              None \<Rightarrow> Some ''single''
                            | Some c \<Rightarrow> if c = [] then Some ''single'' else Some c));
          opts = rowOptions m letterCols t cells;
          ansRaw = normalize (at cells (m_answer m));
          rat = normalize (if m_explanation m \<noteq> None then at cells (m_explanation m) else Some [])
      in \<lparr>q = qv, qtype = t, options = opts, answerIdx = deriveAnswerIdx ansRaw opts,
          rationale = rat\<rparr>)"

record parsed =
  items :: "question list"
  rows :: nat
  headers :: "string list"

definition csvLines :: "string \<Rightarrow> string list" where
  "csvLines text = filter (\<lambda>l. length (trim l) \<noteq> 0) (splitLines [] text)"

definition csvHeaders :: "string \<Rightarrow> string list" where
  "csvHeaders line = map (\<lambda>h. toLowerCase (trim h)) (parseCsvRow line)"

text \<open>\<open>parseCsvSmart\<close>: \<open>Inl\<close> is the error it throws.\<close>

definition parseCsvSmart :: "string \<Rightarrow> string + parsed" where
  "parseCsvSmart text =
     (case csvLines text of
        [] \<Rightarrow> Inr \<lparr>items = [], rows = 0, headers = []\<rparr>
      | first # lines \<Rightarrow>
          let hs = csvHeaders first; m = buildMap hs
          in if m_question m = None \<or> \<not> hasAnyOptions m \<or> m_answer m = None
             then Inl (headerError hs)
             else Inr \<lparr>items = filter (\<lambda>row. validateQuestion row = [])
                                 (map (parseRow m (optLetterCols m)) lines),
                       rows = length lines, headers = hs\<rparr>)"

section \<open>The bank registry and the import command\<close>

type_synonym guild = string
type_synonym channel = string
type_synonym user = string

text \<open>\<open>banks\<close> maps a guild to its banks by name, in insertion order; \<open>lastBank\<close> maps a
  guild to the name of the bank it used last.\<close>

record registry =
  banks :: "guild \<rightharpoonup> (string \<times> question list) list"
  lastBank :: "guild \<rightharpoonup> string"

definition SAMPLE_BANK :: "question list" where
  "SAMPLE_BANK =
     [\<lparr>q = ''Which PPE items are required for contact precautions?'', qtype = ''sata'',
       options = [''Gloves'', ''Gown'', ''N95 respirator'', ''Eye protection''],
       answerIdx = [0, 1],
       rationale = ''Contact = gloves + gown. N95 is airborne; eye protection is procedure-dependent.''\<rparr>,
      \<lparr>q = ''Priority action for suspected sepsis on med-surg?'', qtype = ''single'',
       options = [''Start enteral feeds'', ''Obtain blood cultures'', ''Start DVT prophylaxis'',
                  ''Give PRN lorazepam''],
       answerIdx = [1], rationale = ''Cultures before antibiotics.''\<rparr>,
      \<lparr>q = ''Diabetes sick-day rule: Continue basal insulin.'', qtype = ''tf'',
       options = [''True'', ''False''], answerIdx = [0], rationale = ''Prevents DKA.''\<rparr>]"

definition ensureGuildBank :: "guild \<Rightarrow> registry \<Rightarrow> registry" where
  "ensureGuildBank g reg =
     (if banks reg g = None
      then reg\<lparr>banks := (banks reg)(g \<mapsto> [(''sample'', SAMPLE_BANK)]),
               lastBank := (lastBank reg)(g \<mapsto> ''sample'')\<rparr>
      else reg)"

text \<open>The replies of the import command: the administrator guard, "No valid rows
  found" with the detected headers and the number of rows read, "Imported n questions
  into bank name", and "Import failed:" with the message of the error caught.\<close>

datatype importReply =
  AdminOnly
| NoValidRows "string list" nat
| Imported nat string
| ImportFailed string

text \<open>The \<open>import\<close> branch of the command handler, after \<open>ensureGuildBank\<close>. The download
  of the attachment is the argument \<open>fetched\<close>: \<open>Inl\<close> the message of the error it throws,
  \<open>Inr\<close> the text. The result is the reply, the registry, and the bank handed to
  \<open>saveBankToDisk\<close> when there is one.\<close>

definition quizImport ::
  "guild \<Rightarrow> bool \<Rightarrow> string \<Rightarrow> string + string \<Rightarrow> registry
     \<Rightarrow> importReply \<times> registry \<times> (guild \<times> string \<times> question list) option" where
  "quizImport g isAdmin name fetched reg0 =
     (let reg = ensureGuildBank g reg0 in
      if \<not> isAdmin then (AdminOnly, reg, None)
      else case fetched of
             Inl e \<Rightarrow> (ImportFailed e, reg, None)
           | Inr text \<Rightarrow>
               (case parseCsvSmart text of
                  Inl e \<Rightarrow> (ImportFailed e, reg, None)
                | Inr res \<Rightarrow>
                    if length (items res) = 0
                    then (NoValidRows (headers res) (rows res), reg, None)
                    else (Imported (length (items res)) name,
                          reg\<lparr>banks := (banks reg)(g \<mapsto>
                                  AList.update name (items res)
                                    (case banks reg g of None \<Rightarrow> [] | Some bs \<Rightarrow> bs)),
                               lastBank := (lastBank reg)(g \<mapsto> name)\<rparr>,
                          Some (g, name, items res))))"

section \<open>Sessions\<close>

type_synonym handle = nat
type_synonym ref = nat

text \<open>A session object. \<open>scoreboard\<close> is the \<open>Map\<close> from user to points, as the list of
  its entries in insertion order; \<open>collector\<close> is \<open>None\<close> while the field is \<open>null\<close>.\<close>

record session =
  index :: nat
  bank :: "question list"
  active :: bool
  answered :: bool
  scoreboard :: "(user \<times> int) list"
  collector :: "handle option"

text \<open>The process state: \<open>sessions\<close> maps a channel to its session object, \<open>heap\<close>
  holds the session objects, which the store and the event handlers share, and \<open>fresh\<close> is
  the next unused reference.\<close>

record state =
  sessions :: "channel \<rightharpoonup> ref"
  heap :: "ref \<Rightarrow> session"
  fresh :: ref

text \<open>What the bot sends. The texts of the source hold emoji and so are named here:
  \<^item> \<open>AlreadyAdvanced\<close>: "This question already advanced."
  \<^item> \<open>AnswerResult c ls r\<close>: "Correct!" or "Incorrect!", the correct indices (shown as
    letters) and the rationale (a dash when it is empty)
  \<^item> \<open>SomethingWentWrong\<close>: "Something went wrong (logged)."
  \<^item> \<open>NoQuizRunning\<close>: "No quiz is running in this channel."
  \<^item> \<open>QuizStopped\<close>: "Quiz stopped. Scoreboard cleared for this channel."
  \<^item> \<open>NoScoresYet\<close>: "No scores yet."
  \<^item> \<open>Scoreboard ls\<close>: "Scoreboard" and one line "rank. name - pts pts" per entry
  \<^item> \<open>SkippingInvalid is\<close>: "Skipping invalid question (issues)."
  \<^item> \<open>TimeUp\<close>: "Time up! Moving on"
  \<^item> \<open>QuizStarting n\<close>: "Quiz starting! n questions ..."
  \<^item> \<open>NoQuestions\<close>: "Selected bank has no questions."
  \<^item> \<open>AlreadyRunning\<close>: "A quiz is already running in this channel."
  \<^item> \<open>QuestionEmbed qn i n\<close>: the embed and buttons of question \<open>i + 1\<close> of \<open>n\<close>.\<close>

datatype message =
  AlreadyAdvanced
| AnswerResult bool "int list" string
| SomethingWentWrong
| NoQuizRunning
| QuizStopped
| NoScoresYet
| Scoreboard "(nat \<times> string \<times> int) list"
| SkippingInvalid "issue list"
| TimeUp
| QuizStarting nat
| NoQuestions
| AlreadyRunning
| QuestionEmbed question nat nat

text \<open>The calls a handler makes on the objects of the chat library: replies, follow-ups,
  message updates, \<open>collector.stop(reason)\<close>, the creation of a collector, and a line
  on the error console.\<close>

datatype effect =
  Reply message
| FollowUp message
| Update message
| CollectorStop handle string
| CreateCollector handle
| ConsoleError

subsection \<open>The scoreboard\<close>

text \<open>\<open>Array.prototype.sort\<close> with a comparator is stable; it is modelled by insertion
  sort: an element goes before the first one the comparator does not put before it.\<close>

fun insertCmp :: "('a \<Rightarrow> 'a \<Rightarrow> int) \<Rightarrow> 'a \<Rightarrow> 'a list \<Rightarrow> 'a list" where
  "insertCmp cmp x [] = [x]"
| "insertCmp cmp x (y # ys) = (if cmp x y \<le> 0 then x # y # ys else y # insertCmp cmp x ys)"

definition sortCmp :: "('a \<Rightarrow> 'a \<Rightarrow> int) \<Rightarrow> 'a list \<Rightarrow> 'a list" where
  "sortCmp cmp xs = foldr (insertCmp cmp) xs []"

text \<open>\<open>[...session.scoreboard.entries()].sort((a,b)=>b[1]-a[1])\<close>.\<close>

definition sortedEntries :: "(user \<times> int) list \<Rightarrow> (user \<times> int) list" where
  "sortedEntries sb = sortCmp (\<lambda>a b. snd b - snd a) sb"

text \<open>\<open>showScoreboard\<close>. \<open>names\<close> is the lookup of a user's name, \<open>None\<close> when it fails.
  A line of the result is the rank, the name and the points.\<close>

definition displayName :: "(user \<Rightarrow> string option) \<Rightarrow> user \<Rightarrow> string" where
  "displayName names userId = (case names userId of Some n \<Rightarrow> n | None \<Rightarrow> ''User '' @ userId)"

definition showScoreboard :: "(user \<Rightarrow> string option) \<Rightarrow> session option \<Rightarrow> message" where
  "showScoreboard names so =
     (case so of
        None \<Rightarrow> NoScoresYet
      | Some s \<Rightarrow>
          if length (scoreboard s) = 0 then NoScoresYet
          else let sorted = sortedEntries (scoreboard s)
               in Scoreboard (map (\<lambda>(e, idx). (idx + 1, displayName names (fst e), snd e))
                                 (zip sorted [0..<length sorted])))"

subsection \<open>Presenting a question and collecting answers\<close>

text \<open>The end of the quiz: the session is marked inactive, the scoreboard is shown and
  the channel's entry is deleted from the store.\<close>

definition finishQuiz ::
  "(user \<Rightarrow> string option) \<Rightarrow> channel \<Rightarrow> ref \<Rightarrow> state \<Rightarrow> effect list \<times> state" where
  "finishQuiz names ch r st =
     (let s = (heap st r)\<lparr>active := False\<rparr>
      in ([FollowUp (showScoreboard names (Some s))],
          st\<lparr>heap := (heap st)(r := s), sessions := (sessions st)(ch := None)\<rparr>))"

text \<open>\<open>presentQuestion\<close>, for the session object \<open>r\<close> of channel \<open>ch\<close>; \<open>h\<close> is the collector
  that \<open>createMessageComponentCollector\<close> returns. Reading a question beyond the end of
  the bank throws, which ends on the error console.\<close>

function presentQuestion ::
  "(user \<Rightarrow> string option) \<Rightarrow> handle \<Rightarrow> channel \<Rightarrow> ref \<Rightarrow> state \<Rightarrow> effect list \<times> state" where
  "presentQuestion names h ch r st =
     (case at (bank (heap st r)) (Some (index (heap st r))) of
        None \<Rightarrow> ([ConsoleError], st)
      | Some qn \<Rightarrow>
          if length (validateQuestion qn) \<noteq> 0 then
            (if index (heap st r) + 1 < length (bank (heap st r))
             then (FollowUp (SkippingInvalid (validateQuestion qn)) #
                     fst (presentQuestion names h ch r
                            (st\<lparr>heap := (heap st)(r := (heap st r)\<lparr>index := index (heap st r) + 1\<rparr>)\<rparr>)),
                   snd (presentQuestion names h ch r
                            (st\<lparr>heap := (heap st)(r := (heap st r)\<lparr>index := index (heap st r) + 1\<rparr>)\<rparr>)))
             else (FollowUp (SkippingInvalid (validateQuestion qn)) #
                     fst (finishQuiz names ch r
                            (st\<lparr>heap := (heap st)(r := (heap st r)\<lparr>index := index (heap st r) + 1\<rparr>)\<rparr>)),
                   snd (finishQuiz names ch r
                            (st\<lparr>heap := (heap st)(r := (heap st r)\<lparr>index := index (heap st r) + 1\<rparr>)\<rparr>))))
          else ([FollowUp (QuestionEmbed qn (index (heap st r)) (length (bank (heap st r)))),
                 CreateCollector h],
                st\<lparr>heap := (heap st)(r := (heap st r)\<lparr>active := True, answered := False,
                                                      collector := Some h\<rparr>)\<rparr>))"
  by pat_completeness auto
termination
  by (relation "measure (\<lambda>(names, h, ch, r, st). length (bank (heap st r)) - index (heap st r))")
     auto

declare presentQuestion.simps [simp del]

text \<open>The outcome of \<open>btnInt.update\<close>, which the collect handler awaits: it succeeds, it
  fails on an interaction that has expired (code 10062 or status 404), or it fails
  otherwise.\<close>

datatype updateResult = UpdateOk | UpdateExpired | UpdateFailed

text \<open>\<open>new Set(xs)\<close> as the list of its elements: the first occurrence of each.\<close>

definition setOf :: "'a list \<Rightarrow> 'a list" where
  "setOf xs = rev (remdups (rev xs))"

text \<open>\<open>session.scoreboard.get(id) || 0\<close>.\<close>

definition getScore :: "(user \<times> int) list \<Rightarrow> user \<Rightarrow> int" where
  "getScore sb userId = (case map_of sb userId of None \<Rightarrow> 0 | Some p \<Rightarrow> p)"

text \<open>The \<open>collect\<close> handler of the collector \<open>h\<close>, on the session object it closes
  over, for a click of \<open>user\<close> on the button of option \<open>choice\<close>. The handler writes the
  session only before it awaits \<open>btnInt.update\<close>, so a click handled during that wait
  meets the session this function returns.\<close>

definition collect ::
  "handle \<Rightarrow> user \<Rightarrow> int \<Rightarrow> updateResult \<Rightarrow> session \<Rightarrow> effect list \<times> session" where
  "collect h userId choice upd s =
     (if answered s then ([Reply AlreadyAdvanced], s)
      else let s1 = s\<lparr>answered := True\<rparr> in
        case at (bank s1) (Some (index s1)) of
          None \<Rightarrow> ([ConsoleError, Reply SomethingWentWrong, CollectorStop h ''error''], s1)
        | Some qn \<Rightarrow>
            (let correctSet = setOf (answerIdx qn);
                 isCorrect = (choice \<in> set correctSet);
                 s2 = (if isCorrect
                       then s1\<lparr>scoreboard :=
                               AList.update userId
                                 (getScore (scoreboard s1) userId + 1)
                                 (scoreboard s1)\<rparr>
                       else s1)
             in (case upd of
                   UpdateOk \<Rightarrow>
                     ([Update (AnswerResult isCorrect correctSet (rationale qn)),
                       CollectorStop h ''answered''], s2)
                 | UpdateExpired \<Rightarrow> ([], s2)
                 | UpdateFailed \<Rightarrow>
                     ([ConsoleError, Reply SomethingWentWrong, CollectorStop h ''error''], s2))))"

text \<open>A run of clicks on one question, each handled by \<open>collect\<close> in turn.\<close>

fun collectAll ::
  "handle \<Rightarrow> (user \<times> int \<times> updateResult) list \<Rightarrow> session \<Rightarrow> effect list list \<times> session" where
  "collectAll h [] s = ([], s)"
| "collectAll h (c # cs) s =
     (let r1 = collect h (fst c) (fst (snd c)) (snd (snd c)) s;
          r2 = collectAll h cs (snd r1)
      in (fst r1 # fst r2, snd r2))"

text \<open>The \<open>end\<close> handler of a collector; \<open>h'\<close> is the collector of the next question.\<close>

definition onEnd ::
  "(user \<Rightarrow> string option) \<Rightarrow> handle \<Rightarrow> channel \<Rightarrow> ref \<Rightarrow> string \<Rightarrow> state
     \<Rightarrow> effect list \<times> state" where
  "onEnd names h' ch r reason st =
     (if reason = ''manual-stop'' then ([], st)
      else let notice = (if reason \<noteq> ''answered'' then [FollowUp TimeUp] else []);
               st1 = st\<lparr>heap := (heap st)(r := (heap st r)\<lparr>index := index (heap st r) + 1\<rparr>)\<rparr>;
               res = (if index (heap st1 r) < length (bank (heap st1 r))
                      then presentQuestion names h' ch r st1
                      else finishQuiz names ch r st1)
           in (notice @ fst res, snd res))"

subsection \<open>The commands\<close>

text \<open>\<open>/quiz stop\<close>.\<close>

definition quizStop :: "channel \<Rightarrow> state \<Rightarrow> effect list \<times> state" where
  "quizStop ch st =
     (case sessions st ch of
        None \<Rightarrow> ([Reply NoQuizRunning], st)
      | Some r \<Rightarrow>
          if \<not> active (heap st r) then ([Reply NoQuizRunning], st)
          else ((case collector (heap st r) of
                   None \<Rightarrow> []
                 | Some h \<Rightarrow> [CollectorStop h ''manual-stop'']) @ [Reply QuizStopped],
                st\<lparr>sessions := (sessions st)(ch := None)\<rparr>))"

text \<open>\<open>actuallyStart\<close>. The order that \<open>[...bankArr].sort(() => Math.random() - 0.5)\<close>
  leaves is the argument \<open>shuffled\<close>, a rearrangement of the bank. \<open>desiredCount\<close> is
  \<open>None\<close> for \<open>null\<close>; \<open>bankArr\<close> is \<open>None\<close> when the bank looked up is \<open>undefined\<close>.\<close>

definition selectCount :: "int option \<Rightarrow> nat \<Rightarrow> nat" where
  "selectCount desiredCount len =
     (case desiredCount of
        None \<Rightarrow> len
      | Some d \<Rightarrow> if d \<noteq> 0 then nat (max 1 (min d (int len))) else len)"

text \<open>The part of \<open>actuallyStart\<close> up to its first \<open>await\<close>, the announcement of the quiz:
  the session is created and put into the store. \<open>replied\<close> tells whether the
  interaction has been replied to or deferred, in which case the announcement is a
  follow-up.\<close>

definition createSession ::
  "channel \<Rightarrow> bool \<Rightarrow> question list option \<Rightarrow> question list \<Rightarrow> int option \<Rightarrow> state
     \<Rightarrow> effect list \<times> state \<times> ref option" where
  "createSession ch replied bankArr shuffled desiredCount st =
     (if (case bankArr of None \<Rightarrow> True | Some b \<Rightarrow> length b = 0)
      then ([FollowUp NoQuestions], st, None)
      else if sessions st ch \<noteq> None then ([FollowUp AlreadyRunning], st, None)
      else let count = selectCount desiredCount (length shuffled);
               selected = take count shuffled;
               r = fresh st
           in ([if replied then FollowUp (QuizStarting count) else Reply (QuizStarting count)],
               st\<lparr>sessions := (sessions st)(ch \<mapsto> r),
                  heap := (heap st)(r := \<lparr>index = 0, bank = selected, active = False,
                                           answered = False, scoreboard = [], collector = None\<rparr>),
                  fresh := Suc r\<rparr>,
               Some r))"

definition actuallyStart ::
  "(user \<Rightarrow> string option) \<Rightarrow> handle \<Rightarrow> channel \<Rightarrow> bool \<Rightarrow> question list option
     \<Rightarrow> question list \<Rightarrow> int option \<Rightarrow> state \<Rightarrow> effect list \<times> state" where
  "actuallyStart names h ch replied bankArr shuffled desiredCount st =
     (case createSession ch replied bankArr shuffled desiredCount st of
        (es, st1, None) \<Rightarrow> (es, st1)
      | (es, st1, Some r) \<Rightarrow>
          (es @ fst (presentQuestion names h ch r st1), snd (presentQuestion names h ch r st1)))"

section \<open>Example data\<close>

definition demoQuestion :: question where
  "demoQuestion = \<lparr>q = ''Is water wet?'', qtype = ''single'', options = [''No'', ''Yes''],
                    answerIdx = [1], rationale = ''basic fact''\<rparr>"

definition demoSession :: session where
  "demoSession = \<lparr>index = 0, bank = [demoQuestion], active = True, answered = False,
                   scoreboard = [], collector = Some 0\<rparr>"

text \<open>A state with no session, and one with \<open>demoSession\<close> running in a channel.\<close>

definition idleState :: state where
  "idleState = \<lparr>sessions = Map.empty, heap = (\<lambda>r. demoSession), fresh = 0\<rparr>"

definition runningState :: state where
  "runningState = \<lparr>sessions = [''chan'' \<mapsto> 0], heap = (\<lambda>r. demoSession), fresh = 1\<rparr>"

text \<open>The number of single-letter columns of a column map.\<close>

definition letterCount :: "colmap \<Rightarrow> nat" where
  "letterCount m = (case m_optCols m of None \<Rightarrow> 0 | Some oc \<Rightarrow> length oc)"

section \<open>The validator\<close>

lemma validateQuestion_range_check:
  "list_ex (\<lambda>i. i < 0 \<or> i \<ge> int (length (options qn))) (answerIdx qn) \<longleftrightarrow>
     (\<exists>i \<in> set (answerIdx qn). i < 0 \<or> int (length (options qn)) \<le> i)"
  by (simp add: list_ex_iff)

lemma validateQuestion_issues:
  "validateQuestion qn =
     filter (\<lambda>i. case i of
                 MissingPrompt \<Rightarrow> q qn = []
               | NeedsTwoOptions \<Rightarrow> length (options qn) < 2
               | TooManyOptions \<Rightarrow> length (options qn) > 25
               | MissingAnswers \<Rightarrow> answerIdx qn = []
               | AnswerIndexOutOfRange \<Rightarrow>
                   (\<exists>i \<in> set (answerIdx qn). i < 0 \<or> int (length (options qn)) \<le> i))
       [MissingPrompt, NeedsTwoOptions, TooManyOptions, MissingAnswers, AnswerIndexOutOfRange]"
  unfolding validateQuestion_def validateQuestion_range_check by simp

lemma validateQuestion_member:
  "MissingPrompt \<in> set (validateQuestion qn) \<longleftrightarrow> q qn = []"
  "NeedsTwoOptions \<in> set (validateQuestion qn) \<longleftrightarrow> length (options qn) < 2"
  "TooManyOptions \<in> set (validateQuestion qn) \<longleftrightarrow> length (options qn) > 25"
  "MissingAnswers \<in> set (validateQuestion qn) \<longleftrightarrow> answerIdx qn = []"
  "AnswerIndexOutOfRange \<in> set (validateQuestion qn) \<longleftrightarrow>
     (\<exists>i \<in> set (answerIdx qn). i < 0 \<or> int (length (options qn)) \<le> i)"
  unfolding validateQuestion_def validateQuestion_range_check by simp_all

lemma validateQuestion_order:
  "validateQuestion qn =
     filter (\<lambda>i. i \<in> set (validateQuestion qn))
       [MissingPrompt, NeedsTwoOptions, TooManyOptions, MissingAnswers, AnswerIndexOutOfRange]"
  by (simp add: validateQuestion_def)

lemma validateQuestion_empty_iff:
  "validateQuestion qn = [] \<longleftrightarrow>
     q qn \<noteq> [] \<and> 2 \<le> length (options qn) \<and> length (options qn) \<le> 25 \<and>
     answerIdx qn \<noteq> [] \<and>
     (\<forall>i \<in> set (answerIdx qn). 0 \<le> i \<and> i < int (length (options qn)))"
proof -
  have "validateQuestion qn = [] \<longleftrightarrow>
          q qn \<noteq> [] \<and> \<not> length (options qn) < 2 \<and> \<not> length (options qn) > 25 \<and>
          answerIdx qn \<noteq> [] \<and>
          \<not> (\<exists>i \<in> set (answerIdx qn). i < 0 \<or> int (length (options qn)) \<le> i)"
    unfolding validateQuestion_def validateQuestion_range_check by simp
  also have "\<dots> \<longleftrightarrow>
          q qn \<noteq> [] \<and> 2 \<le> length (options qn) \<and> length (options qn) \<le> 25 \<and>
          answerIdx qn \<noteq> [] \<and>
          (\<forall>i \<in> set (answerIdx qn). 0 \<le> i \<and> i < int (length (options qn)))"
    by (simp add: not_less not_le)
  finally show ?thesis .
qed

text \<open>
  C7. A question with fewer than two options gets the issue "needs \<open>\<ge>\<close>2 options" and one
  with more than 25 gets "\<open>\<le>\<close>25 options supported". The validator reports "missing
  prompt" exactly for an empty prompt, "needs \<open>\<ge>\<close>2 options" exactly for fewer than two
  options, "\<open>\<le>\<close>25 options supported" exactly for more than 25, "missing answer(s)"
  exactly for an empty list of answer indices, and "answer index out of range" exactly
  when some answer index is negative or not below the number of options. The issues
  come in the order of the checks: prompt, option count (both bounds), answers
  present, indices in range; so the result is the fixed list of the five issues with
  the ones that do not apply left out. A question has no issue exactly when it has a
  non-empty prompt, between 2 and 25 options and at least one answer index, all of them
  in range.
\<close>

theorem validateQuestion_correct:
  "(length (options qn) < 2 \<longrightarrow> NeedsTwoOptions \<in> set (validateQuestion qn)) \<and>
   (length (options qn) > 25 \<longrightarrow> TooManyOptions \<in> set (validateQuestion qn)) \<and>
   validateQuestion qn =
     filter (\<lambda>i. i \<in> set (validateQuestion qn))
       [MissingPrompt, NeedsTwoOptions, TooManyOptions, MissingAnswers, AnswerIndexOutOfRange] \<and>
   (q qn \<noteq> [] \<and> 2 \<le> length (options qn) \<and> length (options qn) \<le> 25 \<and>
    answerIdx qn \<noteq> [] \<and>
    (\<forall>i \<in> set (answerIdx qn). 0 \<le> i \<and> i < int (length (options qn)))
      \<longrightarrow> validateQuestion qn = []) \<and>
   (MissingPrompt \<in> set (validateQuestion qn) \<longleftrightarrow> q qn = []) \<and>
   (NeedsTwoOptions \<in> set (validateQuestion qn) \<longleftrightarrow> length (options qn) < 2) \<and>
   (TooManyOptions \<in> set (validateQuestion qn) \<longleftrightarrow> length (options qn) > 25) \<and>
   (MissingAnswers \<in> set (validateQuestion qn) \<longleftrightarrow> answerIdx qn = []) \<and>
   (AnswerIndexOutOfRange \<in> set (validateQuestion qn) \<longleftrightarrow>
      (\<exists>i \<in> set (answerIdx qn). i < 0 \<or> int (length (options qn)) \<le> i)) \<and>
   validateQuestion qn =
     filter (\<lambda>i. case i of
                 MissingPrompt \<Rightarrow> q qn = []
               | NeedsTwoOptions \<Rightarrow> length (options qn) < 2
               | TooManyOptions \<Rightarrow> length (options qn) > 25
               | MissingAnswers \<Rightarrow> answerIdx qn = []
               | AnswerIndexOutOfRange \<Rightarrow>
                   (\<exists>i \<in> set (answerIdx qn). i < 0 \<or> int (length (options qn)) \<le> i))
       [MissingPrompt, NeedsTwoOptions, TooManyOptions, MissingAnswers, AnswerIndexOutOfRange] \<and>
   (validateQuestion qn = [] \<longleftrightarrow>
      q qn \<noteq> [] \<and> 2 \<le> length (options qn) \<and> length (options qn) \<le> 25 \<and>
      answerIdx qn \<noteq> [] \<and>
      (\<forall>i \<in> set (answerIdx qn). 0 \<le> i \<and> i < int (length (options qn))))"
proof (intro conjI impI)
  assume "length (options qn) < 2"
  then show "NeedsTwoOptions \<in> set (validateQuestion qn)"
    by (simp add: validateQuestion_member)
next
  assume "length (options qn) > 25"
  then show "TooManyOptions \<in> set (validateQuestion qn)"
    by (simp add: validateQuestion_member)
next
  show "validateQuestion qn =
     filter (\<lambda>i. i \<in> set (validateQuestion qn))
       [MissingPrompt, NeedsTwoOptions, TooManyOptions, MissingAnswers, AnswerIndexOutOfRange]"
    by (rule validateQuestion_order)
next
  assume "q qn \<noteq> [] \<and> 2 \<le> length (options qn) \<and> length (options qn) \<le> 25 \<and>
    answerIdx qn \<noteq> [] \<and>
    (\<forall>i \<in> set (answerIdx qn). 0 \<le> i \<and> i < int (length (options qn)))"
  then show "validateQuestion qn = []"
    using validateQuestion_empty_iff [of qn] by blast
next
  show "MissingPrompt \<in> set (validateQuestion qn) \<longleftrightarrow> q qn = []"
    by (rule validateQuestion_member)
next
  show "NeedsTwoOptions \<in> set (validateQuestion qn) \<longleftrightarrow> length (options qn) < 2"
    by (rule validateQuestion_member)
next
  show "TooManyOptions \<in> set (validateQuestion qn) \<longleftrightarrow> length (options qn) > 25"
    by (rule validateQuestion_member)
next
  show "MissingAnswers \<in> set (validateQuestion qn) \<longleftrightarrow> answerIdx qn = []"
    by (rule validateQuestion_member)
next
  show "AnswerIndexOutOfRange \<in> set (validateQuestion qn) \<longleftrightarrow>
      (\<exists>i \<in> set (answerIdx qn). i < 0 \<or> int (length (options qn)) \<le> i)"
    by (rule validateQuestion_member)
next
  show "validateQuestion qn =
     filter (\<lambda>i. case i of
                 MissingPrompt \<Rightarrow> q qn = []
               | NeedsTwoOptions \<Rightarrow> length (options qn) < 2
               | TooManyOptions \<Rightarrow> length (options qn) > 25
               | MissingAnswers \<Rightarrow> answerIdx qn = []
               | AnswerIndexOutOfRange \<Rightarrow>
                   (\<exists>i \<in> set (answerIdx qn). i < 0 \<or> int (length (options qn)) \<le> i))
       [MissingPrompt, NeedsTwoOptions, TooManyOptions, MissingAnswers, AnswerIndexOutOfRange]"
    by (rule validateQuestion_issues)
next
  show "validateQuestion qn = [] \<longleftrightarrow>
      q qn \<noteq> [] \<and> 2 \<le> length (options qn) \<and> length (options qn) \<le> 25 \<and>
      answerIdx qn \<noteq> [] \<and>
      (\<forall>i \<in> set (answerIdx qn). 0 \<le> i \<and> i < int (length (options qn)))"
    by (rule validateQuestion_empty_iff)
qed

theorem validateQuestion_correct_witness:
  "validateQuestion \<lparr>q = ''Q'', qtype = ''single'', options = [''Yes'', ''No''],
                     answerIdx = [0], rationale = []\<rparr> = [] \<and>
   NeedsTwoOptions \<in> set (validateQuestion \<lparr>q = ''Q'', qtype = ''single'', options = [''Yes''],
                     answerIdx = [0], rationale = []\<rparr>) \<and>
   validateQuestion \<lparr>q = [], qtype = ''single'', options = [''Yes'', ''No''],
                     answerIdx = [], rationale = []\<rparr> = [MissingPrompt, MissingAnswers] \<and>
   validateQuestion \<lparr>q = [], qtype = ''single'', options = [''Yes''],
                     answerIdx = [1, - 1], rationale = []\<rparr> =
     [MissingPrompt, NeedsTwoOptions, AnswerIndexOutOfRange] \<and>
   validateQuestion \<lparr>q = ''Q'', qtype = ''single'', options = replicate 26 ''x'',
                     answerIdx = [26], rationale = []\<rparr> =
     [TooManyOptions, AnswerIndexOutOfRange]"
  using validateQuestion_correct [of "\<lparr>q = ''Q'', qtype = ''single'', options = [''Yes'', ''No''],
                     answerIdx = [0], rationale = []\<rparr>"]
        validateQuestion_correct [of "\<lparr>q = ''Q'', qtype = ''single'', options = [''Yes''],
                     answerIdx = [0], rationale = []\<rparr>"]
        validateQuestion_correct [of "\<lparr>q = [], qtype = ''single'', options = [''Yes'', ''No''],
                     answerIdx = [], rationale = []\<rparr>"]
        validateQuestion_correct [of "\<lparr>q = [], qtype = ''single'', options = [''Yes''],
                     answerIdx = [1, - 1], rationale = []\<rparr>"]
        validateQuestion_correct [of "\<lparr>q = ''Q'', qtype = ''single'', options = replicate 26 ''x'',
                     answerIdx = [26], rationale = []\<rparr>"]
  by simp

section \<open>The collect handler\<close>

lemma set_setOf: "set (setOf xs) = set xs"
  by (simp add: setOf_def)

lemma getScore_update:
  "getScore (AList.update u p sb) v = (if v = u then p else getScore sb v)"
  by (simp add: getScore_def update_conv')

lemma collect_answered: "answered s \<Longrightarrow> collect h u c upd s = ([Reply AlreadyAdvanced], s)"
  by (simp add: collect_def)

lemma collect_marks:
  "\<not> answered s \<Longrightarrow>
   answered (snd (collect h u c upd s)) \<and> index (snd (collect h u c upd s)) = index s \<and>
   bank (snd (collect h u c upd s)) = bank s"
  by (cases upd) (simp_all add: collect_def Let_def at_def)

lemma collect_scores:
  "\<not> answered s \<Longrightarrow> index s < length (bank s) \<Longrightarrow> c \<in> set (answerIdx (bank s ! index s)) \<Longrightarrow>
   getScore (scoreboard (snd (collect h u c upd s))) v =
     getScore (scoreboard s) v + (if v = u then 1 else 0)"
  by (cases upd) (simp_all add: collect_def Let_def at_def set_setOf getScore_update)

lemma collect_no_score:
  "\<not> answered s \<Longrightarrow> \<not> (index s < length (bank s) \<and> c \<in> set (answerIdx (bank s ! index s))) \<Longrightarrow>
   scoreboard (snd (collect h u c upd s)) = scoreboard s"
  by (cases upd) (auto simp add: collect_def Let_def at_def set_setOf)

lemma collectAll_answered:
  "answered s \<Longrightarrow> collectAll h cs s = (replicate (length cs) [Reply AlreadyAdvanced], s)"
  by (induction cs) (simp_all add: collect_answered Let_def)

lemma collectAll_first:
  "\<not> answered s \<Longrightarrow>
   collectAll h ((u, c, upd) # cs) s =
     (fst (collect h u c upd s) # replicate (length cs) [Reply AlreadyAdvanced],
      snd (collect h u c upd s))"
  using collect_marks [of s h u c upd] by (simp add: Let_def collectAll_answered)


text \<open>
  C1. A click on a question that has been answered gets the reply "already advanced" and
  leaves the session as it is: scoreboard and index included. A click on a question
  not yet answered marks it answered and leaves the index; it adds exactly 1 to the
  points of its user, and changes nobody else's, when the chosen index is one of the
  question's answer indices, and leaves the scoreboard as it is otherwise. So in a run
  of clicks on one question only the first can score: every later one is told "already
  advanced".
\<close>

theorem collect_first_response_wins:
  "(answered s \<longrightarrow> collect h u c upd s = ([Reply AlreadyAdvanced], s)) \<and>
   (\<not> answered s \<longrightarrow>
      answered (snd (collect h u c upd s)) \<and>
      index (snd (collect h u c upd s)) = index s \<and>
      (index s < length (bank s) \<and> c \<in> set (answerIdx (bank s ! index s)) \<longrightarrow>
         (\<forall>v. getScore (scoreboard (snd (collect h u c upd s))) v =
                getScore (scoreboard s) v + (if v = u then 1 else 0))) \<and>
      (\<not> (index s < length (bank s) \<and> c \<in> set (answerIdx (bank s ! index s))) \<longrightarrow>
         scoreboard (snd (collect h u c upd s)) = scoreboard s) \<and>
      collectAll h ((u, c, upd) # cs) s =
        (fst (collect h u c upd s) # replicate (length cs) [Reply AlreadyAdvanced],
         snd (collect h u c upd s)))"
proof (intro conjI impI allI)
  assume "answered s"
  then show "collect h u c upd s = ([Reply AlreadyAdvanced], s)"
    by (rule collect_answered)
next
  assume "\<not> answered s"
  then show "answered (snd (collect h u c upd s))"
    and "index (snd (collect h u c upd s)) = index s"
    using collect_marks [of s h u c upd] by simp_all
next
  fix v
  assume "\<not> answered s"
    and "index s < length (bank s) \<and> c \<in> set (answerIdx (bank s ! index s))"
  then show "getScore (scoreboard (snd (collect h u c upd s))) v =
             getScore (scoreboard s) v + (if v = u then 1 else 0)"
    using collect_scores [of s c h u upd v] by simp
next
  assume "\<not> answered s"
    and "\<not> (index s < length (bank s) \<and> c \<in> set (answerIdx (bank s ! index s)))"
  then show "scoreboard (snd (collect h u c upd s)) = scoreboard s"
    by (rule collect_no_score)
next
  assume "\<not> answered s"
  then show "collectAll h ((u, c, upd) # cs) s =
        (fst (collect h u c upd s) # replicate (length cs) [Reply AlreadyAdvanced],
         snd (collect h u c upd s))"
    by (rule collectAll_first)
qed

lemma demo_collect:
  "collect 0 ''alice'' 1 UpdateOk demoSession =
     ([Update (AnswerResult True [1] ''basic fact''), CollectorStop 0 ''answered''],
      demoSession\<lparr>answered := True, scoreboard := [(''alice'', 1)]\<rparr>)"
  by (simp add: collect_def Let_def demoSession_def demoQuestion_def at_def setOf_def getScore_def)

theorem collect_first_response_wins_witness:
  "\<not> answered demoSession \<and>
   collectAll 0 [(''alice'', 1, UpdateOk), (''bob'', 1, UpdateOk)] demoSession =
     ([[Update (AnswerResult True [1] ''basic fact''), CollectorStop 0 ''answered''],
       [Reply AlreadyAdvanced]],
      demoSession\<lparr>answered := True, scoreboard := [(''alice'', 1)]\<rparr>) \<and>
   getScore (scoreboard (snd (collect 0 ''alice'' 1 UpdateOk demoSession))) ''alice'' = 1 \<and>
   answered (demoSession\<lparr>answered := True\<rparr>) \<and>
   collect 0 ''bob'' 1 UpdateOk (demoSession\<lparr>answered := True\<rparr>) =
     ([Reply AlreadyAdvanced], demoSession\<lparr>answered := True\<rparr>)"
  using collect_first_response_wins
          [of demoSession 0 "''alice''" 1 UpdateOk "[(''bob'', 1, UpdateOk)]"]
        collect_first_response_wins
          [of "demoSession\<lparr>answered := True\<rparr>" 0 "''bob''" 1 UpdateOk "[]"]
        demo_collect
  by (simp add: demoSession_def demoQuestion_def getScore_def)

section \<open>The scoreboard\<close>

lemma insertCmp_insort_key:
  "insertCmp (\<lambda>a b. snd b - snd a) x ys = insort_key (\<lambda>e. - snd e) (x :: 'a \<times> int) ys"
  by (induction ys) auto

lemma sortedEntries_sort_key: "sortedEntries sb = sort_key (\<lambda>e. - snd e) sb"
proof -
  have "insertCmp (\<lambda>a b. snd b - snd a) = insort_key (\<lambda>e :: user \<times> int. - snd e)"
    by (intro ext) (rule insertCmp_insort_key)
  then show ?thesis by (simp add: sortedEntries_def sortCmp_def sort_key_def)
qed

lemma sortedEntries_mset: "mset (sortedEntries sb) = mset sb"
  by (simp add: sortedEntries_sort_key)

lemma sortedEntries_length: "length (sortedEntries sb) = length sb"
  by (simp add: sortedEntries_sort_key)

lemma sortedEntries_descending: "sorted_wrt (\<lambda>a b. snd a \<ge> snd b) (sortedEntries sb)"
proof -
  have "sorted (map (\<lambda>e. - snd e) (sortedEntries sb))"
    by (simp add: sortedEntries_sort_key)
  then show ?thesis by (simp add: sorted_map)
qed

lemma sortedEntries_stable:
  "filter (\<lambda>e. snd e = k) (sortedEntries sb) = filter (\<lambda>e. snd e = k) sb"
  using sort_key_stable [of "\<lambda>e :: user \<times> int. - snd e" "- k" sb]
  by (simp add: sortedEntries_sort_key)

lemma ranked_lines:
  "map (\<lambda>(e, idx). (idx + 1, displayName names (fst e), snd e)) (zip xs [0..<length xs]) =
   map (\<lambda>i. (i + 1, displayName names (fst (xs ! i)), snd (xs ! i))) [0..<length xs]"
  by (rule nth_equalityI) simp_all

lemma showScoreboard_lines:
  "scoreboard s \<noteq> [] \<Longrightarrow>
   showScoreboard names (Some s) =
     Scoreboard (map (\<lambda>i. (i + 1, displayName names (fst (sortedEntries (scoreboard s) ! i)),
                            snd (sortedEntries (scoreboard s) ! i)))
                   [0..<length (scoreboard s)])"
  using ranked_lines [of names "sortedEntries (scoreboard s)"]
  by (simp add: showScoreboard_def Let_def sortedEntries_length)

text \<open>
  C9. The scoreboard is shown as the list of its entries sorted by points, highest first,
  with entries of equal points in the order in which they entered the scoreboard (the
  sort is stable: for every number of points, the entries with that many points keep
  their order), each with its rank, counted from 1. The entries A:3, B:5, C:5, recorded
  in this order, are shown as B, C, A. An empty scoreboard, or no session, gives the
  message "No scores yet."
\<close>

theorem showScoreboard_stable_ranking:
  "showScoreboard names None = NoScoresYet \<and>
   (scoreboard s = [] \<longrightarrow> showScoreboard names (Some s) = NoScoresYet) \<and>
   (scoreboard s \<noteq> [] \<longrightarrow>
      showScoreboard names (Some s) =
        Scoreboard (map (\<lambda>i. (i + 1, displayName names (fst (sortedEntries (scoreboard s) ! i)),
                               snd (sortedEntries (scoreboard s) ! i)))
                      [0..<length (scoreboard s)])) \<and>
   mset (sortedEntries (scoreboard s)) = mset (scoreboard s) \<and>
   sorted_wrt (\<lambda>a b. snd a \<ge> snd b) (sortedEntries (scoreboard s)) \<and>
   (\<forall>k. filter (\<lambda>e. snd e = k) (sortedEntries (scoreboard s)) =
         filter (\<lambda>e. snd e = k) (scoreboard s)) \<and>
   showScoreboard names
      (Some \<lparr>index = 0, bank = [], active = True, answered = False,
             scoreboard = [(''A'', 3), (''B'', 5), (''C'', 5)], collector = None\<rparr>) =
    Scoreboard [(1, displayName names ''B'', 5), (2, displayName names ''C'', 5),
                (3, displayName names ''A'', 3)]"
proof (intro conjI impI allI)
  show "showScoreboard names None = NoScoresYet"
    by (simp add: showScoreboard_def)
next
  assume "scoreboard s = []"
  then show "showScoreboard names (Some s) = NoScoresYet"
    by (simp add: showScoreboard_def)
next
  assume "scoreboard s \<noteq> []"
  then show "showScoreboard names (Some s) =
        Scoreboard (map (\<lambda>i. (i + 1, displayName names (fst (sortedEntries (scoreboard s) ! i)),
                               snd (sortedEntries (scoreboard s) ! i)))
                      [0..<length (scoreboard s)])"
    by (rule showScoreboard_lines)
next
  show "mset (sortedEntries (scoreboard s)) = mset (scoreboard s)"
    by (rule sortedEntries_mset)
next
  show "sorted_wrt (\<lambda>a b. snd a \<ge> snd b) (sortedEntries (scoreboard s))"
    by (rule sortedEntries_descending)
next
  fix k
  show "filter (\<lambda>e. snd e = k) (sortedEntries (scoreboard s)) =
         filter (\<lambda>e. snd e = k) (scoreboard s)"
    by (rule sortedEntries_stable)
next
  show "showScoreboard names
      (Some \<lparr>index = 0, bank = [], active = True, answered = False,
             scoreboard = [(''A'', 3), (''B'', 5), (''C'', 5)], collector = None\<rparr>) =
    Scoreboard [(1, displayName names ''B'', 5), (2, displayName names ''C'', 5),
                (3, displayName names ''A'', 3)]"
    by (simp add: showScoreboard_def sortedEntries_def sortCmp_def)
qed

theorem showScoreboard_stable_ranking_witness:
  "showScoreboard (\<lambda>u. None) (Some demoSession) = NoScoresYet \<and>
   showScoreboard (\<lambda>u. if u = ''B'' then Some ''Bea'' else None)
      (Some (demoSession\<lparr>scoreboard := [(''A'', 3), (''B'', 5), (''C'', 5)]\<rparr>)) =
     Scoreboard [(1, ''Bea'', 5), (2, ''User C'', 5), (3, ''User A'', 3)]"
  using showScoreboard_stable_ranking [of "\<lambda>u. None" demoSession]
        showScoreboard_stable_ranking
          [of "\<lambda>u. if u = ''B'' then Some ''Bea'' else None"
              "demoSession\<lparr>scoreboard := [(''A'', 3), (''B'', 5), (''C'', 5)]\<rparr>"]
  by (simp add: demoSession_def displayName_def sortedEntries_def sortCmp_def)

section \<open>Stopping a quiz\<close>

lemma quizStop_none: "sessions st ch = None \<Longrightarrow> quizStop ch st = ([Reply NoQuizRunning], st)"
  by (simp add: quizStop_def)

lemma quizStop_inactive:
  "sessions st ch = Some r \<Longrightarrow> \<not> active (heap st r) \<Longrightarrow>
   quizStop ch st = ([Reply NoQuizRunning], st)"
  by (simp add: quizStop_def)

lemma quizStop_active:
  "sessions st ch = Some r \<Longrightarrow> active (heap st r) \<Longrightarrow>
   quizStop ch st =
     ((case collector (heap st r) of None \<Rightarrow> [] | Some h \<Rightarrow> [CollectorStop h ''manual-stop''])
        @ [Reply QuizStopped],
      st\<lparr>sessions := (sessions st)(ch := None)\<rparr>)"
  by (simp add: quizStop_def)

lemma quizStop_twice: "snd (quizStop ch (snd (quizStop ch st))) = snd (quizStop ch st)"
  by (simp add: quizStop_def split: option.splits)

lemma onEnd_manual_stop: "onEnd names h' ch r ''manual-stop'' st = ([], st)"
  by (simp add: onEnd_def)

text \<open>
  C4. A stop in a channel with no session replies "No quiz is running" and leaves the
  state as it is. A stop of a running session stops its collector with the reason
  manual-stop (on which the collector's end handler does nothing), deletes the channel's
  entry from the session store and replies "Quiz stopped"; a second stop then finds no
  session, replies "No quiz is running" and leaves the state as it is. In every state,
  the state after two stops is the state after one.
\<close>

theorem quizStop_idempotent:
  "(sessions st ch = None \<longrightarrow> quizStop ch st = ([Reply NoQuizRunning], st)) \<and>
   (sessions st ch = Some r \<and> active (heap st r) \<longrightarrow>
      quizStop ch st =
        ((case collector (heap st r) of None \<Rightarrow> []
          | Some h \<Rightarrow> [CollectorStop h ''manual-stop'']) @ [Reply QuizStopped],
         st\<lparr>sessions := (sessions st)(ch := None)\<rparr>) \<and>
      sessions (snd (quizStop ch st)) ch = None \<and>
      quizStop ch (snd (quizStop ch st)) = ([Reply NoQuizRunning], snd (quizStop ch st))) \<and>
   snd (quizStop ch (snd (quizStop ch st))) = snd (quizStop ch st) \<and>
   onEnd names h' ch r ''manual-stop'' st = ([], st)"
proof (intro conjI impI)
  assume "sessions st ch = None"
  then show "quizStop ch st = ([Reply NoQuizRunning], st)"
    by (rule quizStop_none)
next
  assume a: "sessions st ch = Some r \<and> active (heap st r)"
  then show eq: "quizStop ch st =
        ((case collector (heap st r) of None \<Rightarrow> []
          | Some h \<Rightarrow> [CollectorStop h ''manual-stop'']) @ [Reply QuizStopped],
         st\<lparr>sessions := (sessions st)(ch := None)\<rparr>)"
    by (simp add: quizStop_active)
  then show gone: "sessions (snd (quizStop ch st)) ch = None"
    by simp
  then show "quizStop ch (snd (quizStop ch st)) = ([Reply NoQuizRunning], snd (quizStop ch st))"
    by (rule quizStop_none)
next
  show "snd (quizStop ch (snd (quizStop ch st))) = snd (quizStop ch st)"
    by (rule quizStop_twice)
next
  show "onEnd names h' ch r ''manual-stop'' st = ([], st)"
    by (rule onEnd_manual_stop)
qed

theorem quizStop_idempotent_witness:
  "quizStop ''chan'' idleState = ([Reply NoQuizRunning], idleState) \<and>
   quizStop ''chan'' runningState =
     ([CollectorStop 0 ''manual-stop'', Reply QuizStopped],
      runningState\<lparr>sessions := Map.empty\<rparr>) \<and>
   quizStop ''chan'' (snd (quizStop ''chan'' runningState)) =
     ([Reply NoQuizRunning], runningState\<lparr>sessions := Map.empty\<rparr>)"
  using quizStop_idempotent [of idleState "''chan''" 0]
        quizStop_idempotent [of runningState "''chan''" 0]
  by (simp add: idleState_def runningState_def demoSession_def quizStop_def)

lemma createSession_inserted:
  assumes "createSession ch replied bankArr shuffled dc st = (es, st', Some r)"
  shows "sessions st' ch = Some r \<and> \<not> active (heap st' r)"
  using assms by (auto simp: createSession_def Let_def split: if_splits)

lemma presentQuestion_opens:
  assumes "index (heap st r) < length (bank (heap st r))"
    and "validateQuestion (bank (heap st r) ! index (heap st r)) = []"
  shows "presentQuestion names h ch r st =
           ([FollowUp (QuestionEmbed (bank (heap st r) ! index (heap st r)) (index (heap st r))
                         (length (bank (heap st r)))),
             CreateCollector h],
            st\<lparr>heap := (heap st)(r := (heap st r)\<lparr>active := True, answered := False,
                                                  collector := Some h\<rparr>)\<rparr>)"
  using assms by (subst presentQuestion.simps) (simp add: at_def)

text \<open>
  C10. When the store holds a session for the channel and the session is not active,
  a stop replies "No quiz is running" and leaves the state as it is: the session stays in
  the store, unchanged. The session that \<open>actuallyStart\<close> puts into the store is in this
  condition, and stays so until \<open>presentQuestion\<close> opens the window of a valid question,
  which marks it active.
\<close>

theorem quizStop_inactive_session:
  "(sessions st ch = Some r \<and> \<not> active (heap st r) \<longrightarrow>
      quizStop ch st = ([Reply NoQuizRunning], st)) \<and>
   (createSession ch replied bankArr shuffled dc st = (es, st', Some r') \<longrightarrow>
      sessions st' ch = Some r' \<and> \<not> active (heap st' r') \<and>
      quizStop ch st' = ([Reply NoQuizRunning], st')) \<and>
   (sessions st ch = Some r \<and> index (heap st r) < length (bank (heap st r)) \<and>
    validateQuestion (bank (heap st r) ! index (heap st r)) = [] \<longrightarrow>
      sessions (snd (presentQuestion names h ch r st)) ch = Some r \<and>
      active (heap (snd (presentQuestion names h ch r st)) r))"
proof (intro conjI impI)
  assume "sessions st ch = Some r \<and> \<not> active (heap st r)"
  then show "quizStop ch st = ([Reply NoQuizRunning], st)"
    by (simp add: quizStop_inactive)
next
  assume a: "createSession ch replied bankArr shuffled dc st = (es, st', Some r')"
  then show "sessions st' ch = Some r'" and "\<not> active (heap st' r')"
    using createSession_inserted [OF a] by simp_all
  then show "quizStop ch st' = ([Reply NoQuizRunning], st')"
    by (rule quizStop_inactive)
next
  assume a: "sessions st ch = Some r \<and> index (heap st r) < length (bank (heap st r)) \<and>
    validateQuestion (bank (heap st r) ! index (heap st r)) = []"
  then show "sessions (snd (presentQuestion names h ch r st)) ch = Some r"
    and "active (heap (snd (presentQuestion names h ch r st)) r)"
    by (simp_all add: presentQuestion_opens)
qed

lemma demo_createSession:
  "createSession ''chan'' False (Some [demoQuestion]) [demoQuestion] None idleState =
     ([Reply (QuizStarting 1)],
      \<lparr>sessions = [''chan'' \<mapsto> 0],
       heap = (\<lambda>r. demoSession)(0 := demoSession\<lparr>active := False, collector := None\<rparr>),
       fresh = 1\<rparr>,
      Some 0)"
  by (simp add: createSession_def idleState_def selectCount_def demoSession_def)

theorem quizStop_inactive_session_witness:
  "quizStop ''chan''
     \<lparr>sessions = [''chan'' \<mapsto> 0],
      heap = (\<lambda>r. demoSession)(0 := demoSession\<lparr>active := False, collector := None\<rparr>),
      fresh = 1\<rparr> =
     ([Reply NoQuizRunning],
      \<lparr>sessions = [''chan'' \<mapsto> 0],
       heap = (\<lambda>r. demoSession)(0 := demoSession\<lparr>active := False, collector := None\<rparr>),
       fresh = 1\<rparr>) \<and>
   active (heap (snd (presentQuestion (\<lambda>u. None) 7 ''chan'' 0
     \<lparr>sessions = [''chan'' \<mapsto> 0],
      heap = (\<lambda>r. demoSession)(0 := demoSession\<lparr>active := False, collector := None\<rparr>),
      fresh = 1\<rparr>)) 0)"
  using quizStop_inactive_session
          [of "\<lparr>sessions = [''chan'' \<mapsto> 0],
                heap = (\<lambda>r. demoSession)(0 := demoSession\<lparr>active := False, collector := None\<rparr>),
                fresh = 1\<rparr>"
              "''chan''" 0 False "Some [demoQuestion]" "[demoQuestion]" None
              "[Reply (QuizStarting 1)]"
              "\<lparr>sessions = [''chan'' \<mapsto> 0],
                heap = (\<lambda>r. demoSession)(0 := demoSession\<lparr>active := False, collector := None\<rparr>),
                fresh = 1\<rparr>" 0 "\<lambda>u. None" 7]
        quizStop_inactive_session
          [of idleState "''chan''" 0 False "Some [demoQuestion]" "[demoQuestion]" None
              "[Reply (QuizStarting 1)]"
              "\<lparr>sessions = [''chan'' \<mapsto> 0],
                heap = (\<lambda>r. demoSession)(0 := demoSession\<lparr>active := False, collector := None\<rparr>),
                fresh = 1\<rparr>" 0 "\<lambda>u. None" 7]
        demo_createSession
  by (simp add: demoSession_def demoQuestion_def validateQuestion_def)

section \<open>Starting a quiz\<close>

lemma selectCount_given:
  "d \<noteq> 0 \<Longrightarrow> 0 < len \<Longrightarrow> int (selectCount (Some d) len) = min (max d 1) (int len)"
  by (auto simp: selectCount_def)

lemma selectCount_le: "0 < len \<Longrightarrow> selectCount dc len \<le> len"
  by (cases dc) (auto simp: selectCount_def)

lemma createSession_bank:
  assumes "bankArr = Some b" "b \<noteq> []" "sessions st ch = None"
  shows "createSession ch replied bankArr shuffled dc st =
           ([if replied then FollowUp (QuizStarting (selectCount dc (length shuffled)))
             else Reply (QuizStarting (selectCount dc (length shuffled)))],
            st\<lparr>sessions := (sessions st)(ch \<mapsto> fresh st),
               heap := (heap st)(fresh st :=
                 \<lparr>index = 0, bank = take (selectCount dc (length shuffled)) shuffled,
                  active = False, answered = False, scoreboard = [], collector = None\<rparr>),
               fresh := Suc (fresh st)\<rparr>,
            Some (fresh st))"
  using assms by (simp add: createSession_def Let_def)

text \<open>
  C2. For a non-empty bank, shuffled into any rearrangement of itself, in a
  channel with no session, the session created holds the first \<open>count\<close> questions of the
  shuffled bank, where \<open>count\<close> is the full length when no count is asked for, and
  \<open>min (max desiredCount 1) length\<close> when a count other than 0 is asked for: a negative
  count gives 1 question, a count above the size of the bank gives the whole bank.
\<close>

theorem createSession_count:
  "bankArr = Some b \<and> b \<noteq> [] \<and> mset shuffled = mset b \<and> sessions st ch = None \<longrightarrow>
     snd (snd (createSession ch replied bankArr shuffled dc st)) = Some (fresh st) \<and>
     sessions (fst (snd (createSession ch replied bankArr shuffled dc st))) ch = Some (fresh st) \<and>
     bank (heap (fst (snd (createSession ch replied bankArr shuffled dc st))) (fresh st)) =
       take (selectCount dc (length shuffled)) shuffled \<and>
     length (bank (heap (fst (snd (createSession ch replied bankArr shuffled dc st))) (fresh st))) =
       selectCount dc (length shuffled) \<and>
     (dc = None \<longrightarrow> selectCount dc (length shuffled) = length b) \<and>
     (\<forall>d. dc = Some d \<and> d \<noteq> 0 \<longrightarrow>
        int (selectCount dc (length shuffled)) = min (max d 1) (int (length shuffled))) \<and>
     (\<forall>d. dc = Some d \<and> d < 0 \<longrightarrow> selectCount dc (length shuffled) = 1) \<and>
     (\<forall>d. dc = Some d \<and> d > int (length b) \<longrightarrow> selectCount dc (length shuffled) = length b)"
proof (intro impI)
  assume a: "bankArr = Some b \<and> b \<noteq> [] \<and> mset shuffled = mset b \<and> sessions st ch = None"
  then have len: "length shuffled = length b"
    by (metis size_mset)
  with a have pos: "0 < length shuffled"
    by simp
  have cs: "createSession ch replied bankArr shuffled dc st =
           ([if replied then FollowUp (QuizStarting (selectCount dc (length shuffled)))
             else Reply (QuizStarting (selectCount dc (length shuffled)))],
            st\<lparr>sessions := (sessions st)(ch \<mapsto> fresh st),
               heap := (heap st)(fresh st :=
                 \<lparr>index = 0, bank = take (selectCount dc (length shuffled)) shuffled,
                  active = False, answered = False, scoreboard = [], collector = None\<rparr>),
               fresh := Suc (fresh st)\<rparr>,
            Some (fresh st))"
    using a createSession_bank [of bankArr b st ch replied shuffled dc] by simp
  have le: "selectCount dc (length shuffled) \<le> length shuffled"
    using pos by (rule selectCount_le)
  show "snd (snd (createSession ch replied bankArr shuffled dc st)) = Some (fresh st) \<and>
     sessions (fst (snd (createSession ch replied bankArr shuffled dc st))) ch = Some (fresh st) \<and>
     bank (heap (fst (snd (createSession ch replied bankArr shuffled dc st))) (fresh st)) =
       take (selectCount dc (length shuffled)) shuffled \<and>
     length (bank (heap (fst (snd (createSession ch replied bankArr shuffled dc st))) (fresh st))) =
       selectCount dc (length shuffled) \<and>
     (dc = None \<longrightarrow> selectCount dc (length shuffled) = length b) \<and>
     (\<forall>d. dc = Some d \<and> d \<noteq> 0 \<longrightarrow>
        int (selectCount dc (length shuffled)) = min (max d 1) (int (length shuffled))) \<and>
     (\<forall>d. dc = Some d \<and> d < 0 \<longrightarrow> selectCount dc (length shuffled) = 1) \<and>
     (\<forall>d. dc = Some d \<and> d > int (length b) \<longrightarrow> selectCount dc (length shuffled) = length b)"
  proof (intro conjI impI allI)
    show "snd (snd (createSession ch replied bankArr shuffled dc st)) = Some (fresh st)"
      by (simp add: cs)
    show "sessions (fst (snd (createSession ch replied bankArr shuffled dc st))) ch = Some (fresh st)"
      by (simp add: cs)
    show "bank (heap (fst (snd (createSession ch replied bankArr shuffled dc st))) (fresh st)) =
       take (selectCount dc (length shuffled)) shuffled"
      by (simp add: cs)
    show "length (bank (heap (fst (snd (createSession ch replied bankArr shuffled dc st))) (fresh st))) =
       selectCount dc (length shuffled)"
      using le by (simp add: cs)
  next
    assume "dc = None"
    then show "selectCount dc (length shuffled) = length b"
      by (simp add: selectCount_def len)
  next
    fix d assume "dc = Some d \<and> d \<noteq> 0"
    then show "int (selectCount dc (length shuffled)) = min (max d 1) (int (length shuffled))"
      using pos by (simp add: selectCount_given)
  next
    fix d assume "dc = Some d \<and> d < 0"
    then show "selectCount dc (length shuffled) = 1"
      by (simp add: selectCount_def)
  next
    fix d assume "dc = Some d \<and> d > int (length b)"
    then have "d \<noteq> 0" and dc: "dc = Some d" and "min d (int (length b)) = int (length b)"
      by auto
    moreover have "max 1 (int (length b)) = int (length b)"
      using pos len by (cases b) (simp_all add: max_def)
    ultimately show "selectCount dc (length shuffled) = length b"
      by (simp add: selectCount_def len)
  qed
qed

theorem createSession_count_witness:
  "length (bank (heap (fst (snd (createSession ''chan'' False (Some SAMPLE_BANK) (rev SAMPLE_BANK)
                                   (Some 2) idleState))) 0)) = 2 \<and>
   length (bank (heap (fst (snd (createSession ''chan'' False (Some SAMPLE_BANK) (rev SAMPLE_BANK)
                                   (Some (- 4)) idleState))) 0)) = 1 \<and>
   length (bank (heap (fst (snd (createSession ''chan'' False (Some SAMPLE_BANK) (rev SAMPLE_BANK)
                                   (Some 100) idleState))) 0)) = 3 \<and>
   length (bank (heap (fst (snd (createSession ''chan'' False (Some SAMPLE_BANK) (rev SAMPLE_BANK)
                                   None idleState))) 0)) = 3"
  using createSession_count [of "Some SAMPLE_BANK" SAMPLE_BANK "rev SAMPLE_BANK" idleState "''chan''" False "Some 2"]
        createSession_count [of "Some SAMPLE_BANK" SAMPLE_BANK "rev SAMPLE_BANK" idleState "''chan''" False "Some (- 4)"]
        createSession_count [of "Some SAMPLE_BANK" SAMPLE_BANK "rev SAMPLE_BANK" idleState "''chan''" False "Some 100"]
        createSession_count [of "Some SAMPLE_BANK" SAMPLE_BANK "rev SAMPLE_BANK" idleState "''chan''" False None]
  by (simp add: idleState_def SAMPLE_BANK_def selectCount_def)

text \<open>The count 0 is not clamped to 1: \<open>desiredCount ? ... : shuffled.length\<close> takes it
  for an absent count, and the session holds the whole bank of three questions.\<close>

theorem createSession_count_zero:
  "length (bank (heap (fst (snd (createSession ''chan'' False (Some SAMPLE_BANK) SAMPLE_BANK
                                   (Some 0) idleState))) 0)) = 3 \<and>
   min (max (0 :: int) 1) (int (length SAMPLE_BANK)) = 1"
  by (simp add: createSession_def idleState_def SAMPLE_BANK_def selectCount_def)

section \<open>Splitting the options cell\<close>








lemma splitFrom_single_count:
  "length (splitFrom [c] cur s) = Suc (length (filter (\<lambda>d. d = c) s))"
  by (induction "[c]" cur s rule: splitFrom.induct) auto




text \<open>A whole file with a packed options column.\<close>

lemma packed_row_example:
  "parseCsvSmart (''question,options,answer'' @ [CHR 0x0A] @ ''Pick one,A|B;x|C,B'') =
     Inr \<lparr>items = [\<lparr>q = ''Pick one'', qtype = ''single'', options = [''A'', ''B;x'', ''C''],
                    answerIdx = [1], rationale = []\<rparr>],
          rows = 1, headers = [''question'', ''options'', ''answer'']\<rparr>"
  by code_simp

section \<open>Decoding the answer cell\<close>

















section \<open>The header check\<close>

lemma headerStep_question:
  "m_question (headerStep m (h, i)) = (if h \<in> set questionNames then Some i else m_question m)"
  by (simp add: headerStep_def Let_def)

lemma headerStep_answer:
  "m_answer (headerStep m (h, i)) = (if h \<in> set answerNames then Some i else m_answer m)"
  by (simp add: headerStep_def Let_def)

lemma headerStep_options:
  "m_options (headerStep m (h, i)) = (if h \<in> set optionsNames then Some i else m_options m)"
  by (simp add: headerStep_def Let_def)

lemma headerStep_letters:
  "letterCount (headerStep m (h, i)) = 0 \<longleftrightarrow> letterCount m = 0 \<and> \<not> isLetterHeader h"
  by (cases "m_optCols m") (simp_all add: headerStep_def Let_def letterCount_def)

lemma letterCount_emptyMap: "letterCount emptyMap = 0"
  by (simp add: letterCount_def emptyMap_def)

lemma foldl_question:
  "m_question (foldl headerStep m ps) = None \<longleftrightarrow>
     m_question m = None \<and> (\<forall>p \<in> set ps. fst p \<notin> set questionNames)"
proof (induction ps arbitrary: m)
  case Nil
  then show ?case by simp
next
  case (Cons p ps)
  obtain h i where p: "p = (h, i)" by (cases p)
  show ?case
    by (simp add: Cons.IH p headerStep_question)
qed

lemma foldl_answer:
  "m_answer (foldl headerStep m ps) = None \<longleftrightarrow>
     m_answer m = None \<and> (\<forall>p \<in> set ps. fst p \<notin> set answerNames)"
proof (induction ps arbitrary: m)
  case Nil
  then show ?case by simp
next
  case (Cons p ps)
  obtain h i where p: "p = (h, i)" by (cases p)
  show ?case
    by (simp add: Cons.IH p headerStep_answer)
qed

lemma foldl_options:
  "m_options (foldl headerStep m ps) = None \<longleftrightarrow>
     m_options m = None \<and> (\<forall>p \<in> set ps. fst p \<notin> set optionsNames)"
proof (induction ps arbitrary: m)
  case Nil
  then show ?case by simp
next
  case (Cons p ps)
  obtain h i where p: "p = (h, i)" by (cases p)
  show ?case
    by (simp add: Cons.IH p headerStep_options)
qed

lemma foldl_letters:
  "letterCount (foldl headerStep m ps) = 0 \<longleftrightarrow>
     letterCount m = 0 \<and> (\<forall>p \<in> set ps. \<not> isLetterHeader (fst p))"
proof (induction ps arbitrary: m)
  case Nil
  then show ?case by simp
next
  case (Cons p ps)
  obtain h i where p: "p = (h, i)" by (cases p)
  show ?case
    by (simp add: Cons.IH p headerStep_letters)
qed

lemma ball_zip_upt: "(\<forall>p \<in> set (zip hs [0..<length hs]). P (fst p)) \<longleftrightarrow> (\<forall>h \<in> set hs. P h)"
proof -
  have "map fst (zip hs [0..<length hs]) = hs"
    by simp
  then have "set hs = fst ` set (zip hs [0..<length hs])"
    by (metis set_map)
  then show ?thesis by simp
qed

lemma buildMap_question:
  "m_question (buildMap hs) = None \<longleftrightarrow> (\<forall>h \<in> set hs. h \<notin> set questionNames)"
  using ball_zip_upt [of hs "\<lambda>h. h \<notin> set questionNames"]
  by (simp add: buildMap_def foldl_question emptyMap_def)

lemma buildMap_answer:
  "m_answer (buildMap hs) = None \<longleftrightarrow> (\<forall>h \<in> set hs. h \<notin> set answerNames)"
  using ball_zip_upt [of hs "\<lambda>h. h \<notin> set answerNames"]
  by (simp add: buildMap_def foldl_answer emptyMap_def)

lemma buildMap_hasAnyOptions:
  "hasAnyOptions (buildMap hs) \<longleftrightarrow> (\<exists>h \<in> set hs. h \<in> set optionsNames \<or> isLetterHeader h)"
proof -
  have "m_options (buildMap hs) = None \<longleftrightarrow> (\<forall>h \<in> set hs. h \<notin> set optionsNames)"
    using ball_zip_upt [of hs "\<lambda>h. h \<notin> set optionsNames"]
    by (simp add: buildMap_def foldl_options emptyMap_def)
  moreover have "letterCount (buildMap hs) = 0 \<longleftrightarrow> (\<forall>h \<in> set hs. \<not> isLetterHeader h)"
    using ball_zip_upt [of hs "\<lambda>h. \<not> isLetterHeader h"] letterCount_emptyMap
    by (simp add: buildMap_def foldl_letters)
  moreover have "hasAnyOptions (buildMap hs) \<longleftrightarrow>
          m_options (buildMap hs) \<noteq> None \<or> letterCount (buildMap hs) \<noteq> 0"
    by (simp add: hasAnyOptions_def letterCount_def split: option.splits)
  ultimately show ?thesis by blast
qed


lemma parseCsvSmart_header_error:
  assumes "csvLines text = first # rest"
    and "(\<forall>h \<in> set (csvHeaders first). h \<notin> set questionNames) \<or>
         (\<forall>h \<in> set (csvHeaders first). h \<notin> set answerNames) \<or>
         (\<forall>h \<in> set (csvHeaders first). h \<notin> set optionsNames \<and> \<not> isLetterHeader h)"
  shows "parseCsvSmart text = Inl (headerError (csvHeaders first))"
proof -
  have "m_question (buildMap (csvHeaders first)) = None \<or>
        \<not> hasAnyOptions (buildMap (csvHeaders first)) \<or>
        m_answer (buildMap (csvHeaders first)) = None"
    using assms(2) unfolding buildMap_question buildMap_answer buildMap_hasAnyOptions by blast
  then show ?thesis
    using assms(1) by (simp add: parseCsvSmart_def Let_def)
qed

lemma parseCsvSmart_header_ok:
  assumes "csvLines text = first # rest"
    and "\<exists>h \<in> set (csvHeaders first). h \<in> set questionNames"
    and "\<exists>h \<in> set (csvHeaders first). h \<in> set answerNames"
    and "\<exists>h \<in> set (csvHeaders first). h \<in> set optionsNames \<or> isLetterHeader h"
  shows "\<exists>res. parseCsvSmart text = Inr res"
proof -
  have "\<not> (m_question (buildMap (csvHeaders first)) = None \<or>
        \<not> hasAnyOptions (buildMap (csvHeaders first)) \<or>
        m_answer (buildMap (csvHeaders first)) = None)"
    using assms(2-4) unfolding buildMap_question buildMap_answer buildMap_hasAnyOptions by blast
  then show ?thesis
    using assms(1) by (simp add: parseCsvSmart_def Let_def)
qed

lemma quizImport_parse_error:
  "parseCsvSmart text = Inl e \<Longrightarrow>
   quizImport g True name (Inr text) reg = (ImportFailed e, ensureGuildBank g reg, None)"
  by (simp add: quizImport_def Let_def)

text \<open>
  C5. When the text has a header row and the row has no prompt column, or no answer
  column, or neither a packed options column nor a single-letter column, \<open>parseCsvSmart\<close>
  throws an error whose message ends with the detected headers, joined by \<open>" | "\<close>. It
  returns no items, and the import command replies "Import failed" with that message,
  stores no bank in the registry and saves none to disk.
\<close>

theorem parseCsvSmart_missing_headers:
  "csvLines text = first # rest \<and>
   ((\<forall>h \<in> set (csvHeaders first). h \<notin> set questionNames) \<or>
    (\<forall>h \<in> set (csvHeaders first). h \<notin> set answerNames) \<or>
    (\<forall>h \<in> set (csvHeaders first). h \<notin> set optionsNames \<and> \<not> isLetterHeader h)) \<longrightarrow>
     parseCsvSmart text = Inl (headerError (csvHeaders first)) \<and>
     headerError (csvHeaders first) =
       ''Headers must include at least: question, options (or a|b|c...), answer. Detected: ''
         @ join '' | '' (csvHeaders first) \<and>
     quizImport g True name (Inr text) reg =
       (ImportFailed (headerError (csvHeaders first)), ensureGuildBank g reg, None)"
proof (intro impI)
  assume a: "csvLines text = first # rest \<and>
   ((\<forall>h \<in> set (csvHeaders first). h \<notin> set questionNames) \<or>
    (\<forall>h \<in> set (csvHeaders first). h \<notin> set answerNames) \<or>
    (\<forall>h \<in> set (csvHeaders first). h \<notin> set optionsNames \<and> \<not> isLetterHeader h))"
  then have e: "parseCsvSmart text = Inl (headerError (csvHeaders first))"
    using parseCsvSmart_header_error [of "text" first rest] by blast
  then have "quizImport g True name (Inr text) reg =
       (ImportFailed (headerError (csvHeaders first)), ensureGuildBank g reg, None)"
    by (rule quizImport_parse_error)
  with e show "parseCsvSmart text = Inl (headerError (csvHeaders first)) \<and>
     headerError (csvHeaders first) =
       ''Headers must include at least: question, options (or a|b|c...), answer. Detected: ''
         @ join '' | '' (csvHeaders first) \<and>
     quizImport g True name (Inr text) reg =
       (ImportFailed (headerError (csvHeaders first)), ensureGuildBank g reg, None)"
    by (simp add: headerError_def)
qed

lemma demo_lines:
  "csvLines (''Question,Type,Explanation'' @ [CHR 0x0A] @ ''Is water wet?,tf,basic'') =
     [''Question,Type,Explanation'', ''Is water wet?,tf,basic'']"
  by code_simp

lemma demo_headers:
  "csvHeaders ''Question,Type,Explanation'' = [''question'', ''type'', ''explanation'']"
  by code_simp

lemma demo_lacks:
  "\<forall>h \<in> set [''question'', ''type'', ''explanation'']. h \<notin> set answerNames"
  by (simp add: answerNames_def)

theorem parseCsvSmart_missing_headers_witness:
  "parseCsvSmart (''Question,Type,Explanation'' @ [CHR 0x0A] @ ''Is water wet?,tf,basic'') =
     Inl (''Headers must include at least: question, options (or a|b|c...), answer. Detected: ''
            @ ''question | type | explanation'') \<and>
   fst (snd (quizImport ''g'' True ''bank''
               (Inr (''Question,Type,Explanation'' @ [CHR 0x0A] @ ''Is water wet?,tf,basic''))
               \<lparr>banks = Map.empty, lastBank = Map.empty\<rparr>)) =
     \<lparr>banks = [''g'' \<mapsto> [(''sample'', SAMPLE_BANK)]], lastBank = [''g'' \<mapsto> ''sample'']\<rparr>"
  using parseCsvSmart_missing_headers
          [of "''Question,Type,Explanation'' @ [CHR 0x0A] @ ''Is water wet?,tf,basic''"
              "''Question,Type,Explanation''" "[''Is water wet?,tf,basic'']"
              "''g''" "''bank''" "\<lparr>banks = Map.empty, lastBank = Map.empty\<rparr>"]
        demo_lines demo_lacks
  by (simp add: demo_headers headerError_def ensureGuildBank_def)

text \<open>A file with a header row only: no items, no rows, no error.\<close>

lemma header_only_example:
  "parseCsvSmart ''question,options,answer'' =
     Inr \<lparr>items = [], rows = 0, headers = [''question'', ''options'', ''answer'']\<rparr>"
  by code_simp

text \<open>A file with letter columns: the header \<open>question,correct,rationale,a,b,c,d\<close> and
  the row \<open>"Is water wet?",A,"basic fact",Yes,No,Maybe,Unsure\<close>.\<close>

lemma letter_columns_example:
  "parseCsvSmart (''question,correct,rationale,a,b,c,d'' @ [CHR 0x0D, CHR 0x0A] @
                  [CHR 0x22] @ ''Is water wet?'' @ [CHR 0x22] @ '',A,'' @
                  [CHR 0x22] @ ''basic fact'' @ [CHR 0x22] @ '',Yes,No,Maybe,Unsure'' @ [CHR 0x0A]) =
     Inr \<lparr>items = [\<lparr>q = ''Is water wet?'', qtype = ''single'',
                    options = [''Yes'', ''No'', ''Maybe'', ''Unsure''],
                    answerIdx = [0], rationale = ''basic fact''\<rparr>],
          rows = 1,
          headers = [''question'', ''correct'', ''rationale'', ''a'', ''b'', ''c'', ''d'']\<rparr>"
  by code_simp

end
